theory Spec2Isabelle
  imports Main "HOL-Library.Word"
begin

section \<open>Shared vocabulary\<close>

text \<open>
  Ways in which a member function can stop without returning. The first four are
  undefined behaviour in the C++ (a null or dangling pointer is dereferenced, a vector is
  indexed past its end); the last two are C++ exceptions derived from
  \<^verbatim>\<open>std::exception\<close>, which a \<^verbatim>\<open>catch (const std::exception&)\<close> intercepts.
\<close>

datatype failure =
    NullSocket
  | NullMethod
  | NullDelegate
  | VectorIndex
  | OutOfRange
  | DeserializeError

fun is_exception :: "failure \<Rightarrow> bool" where
  "is_exception OutOfRange = True"
| "is_exception DeserializeError = True"
| "is_exception _ = False"

text \<open>The qiLog macros: a level, a category and the literal text of the message.\<close>

datatype log_level = LogDebug | LogVerbose | LogWarning | LogError

type_synonym log_entry = "log_level \<times> string \<times> string"

text \<open>Decimal rendering of an unsigned number, as \<^verbatim>\<open>operator<<\<close> on a stream prints it.\<close>

fun dec :: "nat \<Rightarrow> string" where
  "dec n = (if n < 10 then [''0123456789'' ! n]
            else dec (n div 10) @ [''0123456789'' ! (n mod 10)])"

declare dec.simps [simp del]

text \<open>
  \<^verbatim>\<open>std::string::substr(pos, n)\<close>: throws \<^verbatim>\<open>std::out_of_range\<close> when
  \<open>pos\<close> is beyond the end, otherwise returns at most \<open>n\<close> characters from \<open>pos\<close>.
\<close>

definition substr :: "string \<Rightarrow> nat \<Rightarrow> nat \<Rightarrow> failure + string" where
  "substr s pos n = (if length s < pos then Inl OutOfRange else Inr (take n (drop pos s)))"

text \<open>The unsigned difference \<^verbatim>\<open>sig.length() - 2\<close> of two \<^verbatim>\<open>size_t\<close> values.\<close>

definition size_t_minus2 :: "nat \<Rightarrow> nat" where
  "size_t_minus2 n = unat (word_of_nat n - (2 :: 64 word))"

section \<open>Transport server (transport-server.cpp)\<close>

record url =
  host :: string
  port :: "16 word"

type_synonym event_base = nat
type_synonym evutil_socket_t = int

record evconnlistener =
  lev_base :: event_base
  lev_fd :: evutil_socket_t

definition evconnlistener_get_base :: "evconnlistener \<Rightarrow> event_base" where
  "evconnlistener_get_base l = lev_base l"

text \<open>A \<^verbatim>\<open>qi::TransportSocket(fd, base)\<close> as the accept path constructs it.\<close>

record accepted_socket =
  as_fd :: evutil_socket_t
  as_base :: event_base

datatype lev_opt = LEV_OPT_CLOSE_ON_FREE | LEV_OPT_CLOSE_ON_EXEC | LEV_OPT_REUSEABLE

datatype sa_family = AF_UNSPEC | AF_INET

record sockaddr_in =
  sin_family :: sa_family
  sin_port :: "16 word"
  sin_addr :: "32 word"

definition INADDR_NONE :: "32 word" where
  "INADDR_NONE = 0xFFFFFFFF"

text \<open>
  The platform and libevent functions that \<^verbatim>\<open>start\<close> calls; they are not code of
  this repository and are taken as parameters. \<open>evconnlistener_new_bind\<close> returns
  \<open>None\<close> for the null pointer libevent returns when the bind fails.
\<close>

record platform =
  inet_addr :: "string \<Rightarrow> 32 word"
  htons :: "16 word \<Rightarrow> 16 word"
  evconnlistener_new_bind ::
    "event_base \<Rightarrow> lev_opt list \<Rightarrow> int \<Rightarrow> sockaddr_in \<Rightarrow> evconnlistener option"

text \<open>
  \<^verbatim>\<open>TransportServerPrivate\<close>: the queue of accepted sockets and the delegate pointer
  \<open>tsi\<close> (\<open>None\<close> while no delegate is installed). A delegate is named by a number;
  \<open>notified\<close> records, in order, every delegate whose \<^verbatim>\<open>newConnection()\<close> ran.
\<close>

record transport_server_private =
  connection :: "accepted_socket list"
  tsi :: "nat option"
  notified :: "nat list"

text \<open>
  Modelled from the spec: the constructor of \<^verbatim>\<open>TransportServerPrivate\<close> is declared in
  transport_server_p.hpp, which is not among the sources; the server is
  ``constructed empty'', with no delegate.
\<close>

definition TransportServerPrivate_new :: transport_server_private where
  "TransportServerPrivate_new = \<lparr>connection = [], tsi = None, notified = []\<rparr>"

text \<open>
  \<^verbatim>\<open>TransportServerPrivate::accept\<close>: the socket is pushed, then
  \<^verbatim>\<open>tsi->newConnection()\<close> is called through the pointer without a test.
\<close>

definition accept ::
  "evutil_socket_t \<Rightarrow> evconnlistener \<Rightarrow> transport_server_private
     \<Rightarrow> failure option \<times> transport_server_private" where
  "accept fd listener p =
     (let base = evconnlistener_get_base listener;
          p1 = p\<lparr>connection := connection p @ [\<lparr>as_fd = fd, as_base = base\<rparr>]\<rparr>
      in case tsi p1 of
           None \<Rightarrow> (Some NullDelegate, p1)
         | Some d \<Rightarrow> (None, p1\<lparr>notified := notified p1 @ [d]\<rparr>))"

text \<open>
  \<^verbatim>\<open>TransportServerPrivate::start\<close>. The listener returned by
  \<^verbatim>\<open>evconnlistener_new_bind\<close> is stored in a local variable and never looked at.
\<close>

definition start :: "platform \<Rightarrow> event_base \<Rightarrow> url \<Rightarrow> bool \<times> log_entry list" where
  "start pf base u =
     (let sin = \<lparr>sin_family = AF_INET, sin_port = htons pf (port u),
                 sin_addr = inet_addr pf (host u)\<rparr>
      in if sin_addr sin = INADDR_NONE
         then (False, [(LogError, ''qimessaging.transportserver'', ''Provided IP is not valid'')])
         else (let listener = evconnlistener_new_bind pf base
                      [LEV_OPT_CLOSE_ON_FREE, LEV_OPT_CLOSE_ON_EXEC, LEV_OPT_REUSEABLE] (- 1) sin
               in (True, [])))"

definition nextPendingConnection ::
  "transport_server_private \<Rightarrow> accepted_socket option \<times> transport_server_private" where
  "nextPendingConnection p =
     (case connection p of
        [] \<Rightarrow> (None, p)
      | front # rest \<Rightarrow> (Some front, p\<lparr>connection := rest\<rparr>))"

definition setCallbacks :: "nat \<Rightarrow> transport_server_private \<Rightarrow> transport_server_private" where
  "setCallbacks delegate p = p\<lparr>tsi := Some delegate\<rparr>"

text \<open>Fixtures: a platform on which every bind fails, and a listener.\<close>

definition pf_bind_fails :: platform where
  "pf_bind_fails =
     \<lparr>inet_addr = (\<lambda>h. if h = ''127.0.0.1'' then 0x0100007F else INADDR_NONE),
      htons = (\<lambda>p. p),
      evconnlistener_new_bind = (\<lambda>base flags backlog sa. None)\<rparr>"

definition url_local :: url where
  "url_local = \<lparr>host = ''127.0.0.1'', port = 5555\<rparr>"

definition listener0 :: evconnlistener where
  "listener0 = \<lparr>lev_base = 0, lev_fd = 3\<rparr>"

section \<open>Remote object proxy (remoteobject.cpp)\<close>

subsection \<open>Messages, sockets, promises\<close>

datatype message_type = Type_None | Type_Call | Type_Reply | Type_Event | Type_Error

record buffer =
  buf_signature :: string
  buf_data :: "8 word list"

record message =
  msg_id :: "32 word"
  msg_type :: message_type
  msg_service :: "32 word"
  msg_object :: "32 word"
  msg_function :: "32 word"
  msg_buffer :: buffer

text \<open>
  \<^verbatim>\<open>Message::event()\<close> is declared in message.hpp, which is not among the sources;
  \<^verbatim>\<open>metaEmit\<close> stores the event number with \<^verbatim>\<open>setFunction\<close>, so the accessor is
  read as the function field.
\<close>

definition msg_event :: "message \<Rightarrow> 32 word" where
  "msg_event m = msg_function m"

text \<open>
  The transport socket behind \<^verbatim>\<open>_socket\<close>. Its class is outside the sources:
  \<open>send_ok\<close> is the answer its \<^verbatim>\<open>send\<close> gives for a message, and \<open>handed\<close> lists
  the messages that were passed to \<^verbatim>\<open>send\<close>, in order.
\<close>

record transport_socket =
  isConnected :: bool
  send_ok :: "message \<Rightarrow> bool"
  handed :: "message list"

definition send :: "message \<Rightarrow> transport_socket \<Rightarrow> bool \<times> transport_socket" where
  "send m sock = (send_ok sock m, sock\<lparr>handed := handed sock @ [m]\<rparr>)"

datatype generic_value = GenericValue string "8 word list"

text \<open>
  A \<^verbatim>\<open>qi::Promise\<close> is a handle on shared state; copies of a promise (the one in the
  registry, the local \<^verbatim>\<open>out\<close>, the future handed to the caller) name the same state.
  The state is kept in a store indexed by address, and holds every
  \<^verbatim>\<open>setValue\<close> and \<^verbatim>\<open>setError\<close> the promise has received, oldest first.
\<close>

datatype resolution = Value generic_value | Error string

type_synonym promise = nat

record meta_method =
  mm_signature :: string
  mm_sigreturn :: string

type_synonym dynobj = "(32 word \<times> nat) list"

text \<open>
  What the proxy consumes from code outside the sources: the build configuration
  (\<open>ndebug\<close>: \<^verbatim>\<open>NDEBUG\<close> is defined), the meta-object's method and signal tables,
  the signature and type system, the data streams, the local subscriber table of
  \<^verbatim>\<open>DynamicObject\<close>, and the constants of message.hpp.
\<close>

record env =
  ndebug :: bool
  metaObject_method :: "32 word \<Rightarrow> meta_method option"
  signalBase :: "32 word \<Rightarrow> string option"
  signatureSplit :: "string \<Rightarrow> string list"
  fromSignature :: "string \<Rightarrow> (buffer \<Rightarrow> generic_value) option"
  read_string :: "8 word list \<Rightarrow> string \<times> 8 word list"
  fromBuffer :: "string \<Rightarrow> buffer \<Rightarrow> generic_value list option"
  write_uints :: "32 word list \<Rightarrow> buffer"
  dyn_connect :: "dynobj \<Rightarrow> 32 word \<Rightarrow> nat \<Rightarrow> 32 word \<times> dynobj"
  dyn_disconnect :: "dynobj \<Rightarrow> 32 word \<Rightarrow> bool \<times> dynobj"
  GenericObject_Main :: "32 word"
  Service_Server :: "32 word"
  ServerFunction_RegisterEvent :: "32 word"
  ServerFunction_UnregisterEvent :: "32 word"

text \<open>
  The proxy: its members \<^verbatim>\<open>_socket\<close>, \<^verbatim>\<open>_service\<close>, \<^verbatim>\<open>_promises\<close> and the
  inherited subscriber table, together with what its member functions act on: the
  promise store (\<open>fresh\<close> is the next unused address), the log, and the signal
  triggers delivered to local subscribers.
\<close>

record remote_object =
  socket :: "transport_socket option"
  service :: "32 word"
  promises :: "32 word \<rightharpoonup> promise"
  store :: "promise \<Rightarrow> resolution list"
  fresh :: promise
  log :: "log_entry list"
  triggered :: "(32 word \<times> generic_value list) list"
  dyn :: dynobj

definition qiLog :: "log_level \<Rightarrow> string \<Rightarrow> string \<Rightarrow> remote_object \<Rightarrow> remote_object" where
  "qiLog lvl cat txt s = s\<lparr>log := log s @ [(lvl, cat, txt)]\<rparr>"

text \<open>A default-constructed \<^verbatim>\<open>qi::Promise\<close>: new shared state, not yet resolved.\<close>

definition new_promise :: "remote_object \<Rightarrow> promise \<times> remote_object" where
  "new_promise s = (fresh s, s\<lparr>store := (store s)(fresh s := []), fresh := Suc (fresh s)\<rparr>)"

definition setValue :: "promise \<Rightarrow> generic_value \<Rightarrow> remote_object \<Rightarrow> remote_object" where
  "setValue p v s = s\<lparr>store := (store s)(p := store s p @ [Value v])\<rparr>"

definition setError :: "promise \<Rightarrow> string \<Rightarrow> remote_object \<Rightarrow> remote_object" where
  "setError p e s = s\<lparr>store := (store s)(p := store s p @ [Error e])\<rparr>"

text \<open>
  The argument tuple of a full signature, as both \<^verbatim>\<open>metaCall\<close> (debug builds) and
  the event branch compute it: \<^verbatim>\<open>signatureSplit(sig)[2]\<close>, then
  \<^verbatim>\<open>substr(1, length - 2)\<close>.
\<close>

definition arg_tuple_sig :: "env \<Rightarrow> string \<Rightarrow> failure + string" where
  "arg_tuple_sig e full =
     (let parts = signatureSplit e full
      in if length parts \<le> 2 then Inl VectorIndex
         else (let sig = parts ! 2 in substr sig 1 (size_t_minus2 (length sig))))"

subsection \<open>metaCall\<close>

text \<open>
  Lines 137--148, compiled only when \<^verbatim>\<open>NDEBUG\<close> is not defined:
  \<^verbatim>\<open>metaObject().method(method)->signature()\<close> goes through the pointer that
  \<^verbatim>\<open>method\<close> returns without testing it, and the \<^verbatim>\<open>substr\<close> is not inside a
  \<^verbatim>\<open>try\<close>.
\<close>

definition debug_signature_check ::
  "env \<Rightarrow> 32 word \<Rightarrow> buffer \<Rightarrow> remote_object \<Rightarrow> failure option \<times> remote_object" where
  "debug_signature_check e m inb s =
     (if ndebug e then (None, s)
      else case metaObject_method e m of
             None \<Rightarrow> (Some NullMethod, s)
           | Some mm \<Rightarrow>
               (case arg_tuple_sig e (mm_signature mm) of
                  Inl f \<Rightarrow> (Some f, s)
                | Inr sig \<Rightarrow>
                    if sig \<noteq> buf_signature inb
                    then (None, qiLog LogError ''remoteobject'' ''call signature mismatch '' s)
                    else (None, s)))"

text \<open>Lines 135--136 and 149--152: the call message.\<close>

definition call_message ::
  "env \<Rightarrow> 32 word \<Rightarrow> buffer \<Rightarrow> 32 word \<Rightarrow> remote_object \<Rightarrow> message" where
  "call_message e m inb mid s =
     \<lparr>msg_id = mid, msg_type = Type_Call, msg_service = service s,
      msg_object = GenericObject_Main e, msg_function = m, msg_buffer = inb\<rparr>"

text \<open>
  Lines 134--154: the promise \<open>out\<close> and the message are built. \<open>mid\<close> is the id the
  constructor of \<^verbatim>\<open>qi::Message\<close> gave the new message, \<open>inb\<close> is
  \<^verbatim>\<open>in.toBuffer()\<close>.
\<close>

definition mc_begin ::
  "env \<Rightarrow> 32 word \<Rightarrow> buffer \<Rightarrow> 32 word \<Rightarrow> remote_object
     \<Rightarrow> (failure + promise \<times> message) \<times> remote_object" where
  "mc_begin e m inb mid s =
     (let (out, s1) = new_promise s
      in case debug_signature_check e m inb s1 of
           (Some f, s2) \<Rightarrow> (Inl f, s2)
         | (None, s2) \<Rightarrow>
             (let msg = call_message e m inb mid s2
              in (Inr (out, msg), qiLog LogDebug ''remoteobject'' '' metacall '' s2)))"

text \<open>Lines 155--163, one critical section of \<^verbatim>\<open>_mutex\<close>.\<close>

definition mc_insert :: "promise \<Rightarrow> message \<Rightarrow> remote_object \<Rightarrow> remote_object" where
  "mc_insert out msg s =
     (let s1 = (if promises s (msg_id msg) \<noteq> None
                then qiLog LogError ''remoteobject''
                       ''There is already a pending promise with id '' s
                else s)
      in s1\<lparr>promises := (promises s1)(msg_id msg \<mapsto> out)\<rparr>)"

text \<open>
  The condition of line 166; its value is whether the message was sent. \<^verbatim>\<open>send\<close> is
  reached only when the socket is present and connected.
\<close>

definition mc_send :: "message \<Rightarrow> remote_object \<Rightarrow> bool \<times> remote_object" where
  "mc_send msg s =
     (case socket s of
        None \<Rightarrow> (False, s)
      | Some sock \<Rightarrow>
          if \<not> isConnected sock then (False, s)
          else (let (ok, sock') = send msg sock in (ok, s\<lparr>socket := Some sock'\<rparr>)))"

definition network_error_text :: "env \<Rightarrow> 32 word \<Rightarrow> string" where
  "network_error_text e m =
     (case metaObject_method e m of
        Some meth \<Rightarrow>
          ''Network error while sending data to method: '' @ [CHR 0x27]
            @ mm_signature meth @ [CHR 0x27]
      | None \<Rightarrow>
          ''Network error while sending data an unknown method (id=''
            @ dec (unat m) @ '')'')"

text \<open>Lines 167--177: the promise is failed, outside the mutex.\<close>

definition mc_fail :: "env \<Rightarrow> promise \<Rightarrow> 32 word \<Rightarrow> remote_object \<Rightarrow> remote_object" where
  "mc_fail e out m s =
     setError out (network_error_text e m)
       (qiLog LogError ''remoteobject'' ''error while sending answer'' s)"

text \<open>Lines 179--182, a second critical section.\<close>

definition mc_erase :: "message \<Rightarrow> remote_object \<Rightarrow> remote_object" where
  "mc_erase msg s = s\<lparr>promises := (promises s)(msg_id msg := None)\<rparr>"

text \<open>
  \<^verbatim>\<open>RemoteObject::metaCall\<close> run by one thread with no other thread in between. The
  future it returns is the promise's address.
\<close>

definition metaCall ::
  "env \<Rightarrow> 32 word \<Rightarrow> buffer \<Rightarrow> 32 word \<Rightarrow> remote_object
     \<Rightarrow> (failure + promise) \<times> remote_object" where
  "metaCall e m inb mid s =
     (case mc_begin e m inb mid s of
        (Inl f, s1) \<Rightarrow> (Inl f, s1)
      | (Inr (out, msg), s1) \<Rightarrow>
          (let s2 = mc_insert out msg s1;
               (ok, s3) = mc_send msg s2
           in if ok then (Inr out, s3)
              else (Inr out, mc_erase msg (mc_fail e out m s3))))"

subsection \<open>onMessagePending\<close>

text \<open>Lines 42--46: the local promise is default-constructed.\<close>

definition omp_begin :: "message \<Rightarrow> remote_object \<Rightarrow> promise \<times> remote_object" where
  "omp_begin msg s =
     (let (p, s1) = new_promise s in (p, qiLog LogDebug ''RemoteObject'' '' msg '' s1))"

text \<open>
  Lines 47--55, one critical section: find and erase, whatever the type of the message.
  The result is the local promise and \<open>found\<close>.
\<close>

definition omp_take ::
  "promise \<Rightarrow> message \<Rightarrow> remote_object \<Rightarrow> (promise \<times> bool) \<times> remote_object" where
  "omp_take p msg s =
     (case promises s (msg_id msg) of
        None \<Rightarrow> ((p, False), s)
      | Some q \<Rightarrow> ((q, True), s\<lparr>promises := (promises s)(msg_id msg := None)\<rparr>))"

text \<open>Lines 57--128, the switch on the type of the message.\<close>

definition omp_reply ::
  "env \<Rightarrow> promise \<Rightarrow> bool \<Rightarrow> message \<Rightarrow> remote_object \<Rightarrow> remote_object" where
  "omp_reply e p found msg s =
     (if \<not> found
      then qiLog LogError ''remoteobject'' ''no promise found for req id:'' s
      else case metaObject_method e (msg_function msg) of
             None \<Rightarrow>
               setError p ''Result for unknown function''
                 (qiLog LogError ''remoteobject'' ''Result for unknown function '' s)
           | Some mm \<Rightarrow>
               (case fromSignature e (mm_sigreturn mm) of
                  None \<Rightarrow>
                    setError p (''Unable to find a type for signature '' @ mm_sigreturn mm) s
                | Some deserialize \<Rightarrow> setValue p (deserialize (msg_buffer msg)) s))"

definition omp_error :: "env \<Rightarrow> promise \<Rightarrow> message \<Rightarrow> remote_object \<Rightarrow> remote_object" where
  "omp_error e p msg s =
     (let (sig, rest) = read_string e (buf_data (msg_buffer msg))
      in if sig \<noteq> ''s''
         then setError p ''unknown error''
                (qiLog LogError ''qi.RemoteObject'' ''Invalid error signature: '' s)
         else (let (err, rest') = read_string e rest
               in setError p err
                    (qiLog LogVerbose ''remoteobject'' ''Received error message'' s)))"

definition omp_event ::
  "env \<Rightarrow> message \<Rightarrow> remote_object \<Rightarrow> failure option \<times> remote_object" where
  "omp_event e msg s =
     (case signalBase e (msg_event msg) of
        Some sb_signature \<Rightarrow>
          (case arg_tuple_sig e sb_signature of
             Inl f \<Rightarrow>
               if is_exception f
               then (None, qiLog LogWarning ''remoteobject'' ''Deserialize error on event: '' s)
               else (Some f, s)
           | Inr sig \<Rightarrow>
               (case fromBuffer e sig (msg_buffer msg) of
                  None \<Rightarrow>
                    (None, qiLog LogWarning ''remoteobject'' ''Deserialize error on event: '' s)
                | Some args \<Rightarrow>
                    (None, s\<lparr>triggered := triggered s @ [(msg_event msg, args)]\<rparr>)))
      | None \<Rightarrow>
          (None, qiLog LogDebug ''remoteobject'' ''''
                   (qiLog LogWarning ''remoteobject'' ''Event message on unknown signal '' s)))"

definition omp_switch ::
  "env \<Rightarrow> promise \<Rightarrow> bool \<Rightarrow> message \<Rightarrow> remote_object
     \<Rightarrow> failure option \<times> remote_object" where
  "omp_switch e p found msg s =
     (case msg_type msg of
        Type_Reply \<Rightarrow> (None, omp_reply e p found msg s)
      | Type_Error \<Rightarrow> (None, omp_error e p msg s)
      | Type_Event \<Rightarrow> omp_event e msg s
      | _ \<Rightarrow> (None, qiLog LogError ''remoteobject'' ''Message '' s))"

text \<open>\<^verbatim>\<open>RemoteObject::onMessagePending\<close> run by one thread with no other in between.\<close>

definition onMessagePending ::
  "env \<Rightarrow> message \<Rightarrow> remote_object \<Rightarrow> failure option \<times> remote_object" where
  "onMessagePending e msg s =
     (let (p, s1) = omp_begin msg s;
          ((q, found), s2) = omp_take p msg s1
      in omp_switch e q found msg s2)"

subsection \<open>metaEmit, connect, disconnect\<close>

text \<open>
  Each of the three calls \<^verbatim>\<open>_socket->send(msg)\<close> with no test of \<^verbatim>\<open>_socket\<close> and
  no call of \<^verbatim>\<open>isConnected\<close>. \<open>mid\<close> is again the id of the message constructed.
\<close>

definition metaEmit ::
  "env \<Rightarrow> 32 word \<Rightarrow> buffer \<Rightarrow> 32 word \<Rightarrow> remote_object
     \<Rightarrow> failure option \<times> remote_object" where
  "metaEmit e event args mid s =
     (let msg = \<lparr>msg_id = mid, msg_type = Type_Event, msg_service = service s,
                 msg_object = GenericObject_Main e, msg_function = event,
                 msg_buffer = args\<rparr>
      in case socket s of
           None \<Rightarrow> (Some NullSocket, s)
         | Some sock \<Rightarrow>
             (let (ok, sock') = send msg sock;
                  s1 = s\<lparr>socket := Some sock'\<rparr>
              in if \<not> ok
                 then (None, qiLog LogError ''remoteobject'' ''error while emiting event'' s1)
                 else (None, s1)))"

definition connect ::
  "env \<Rightarrow> 32 word \<Rightarrow> nat \<Rightarrow> 32 word \<Rightarrow> remote_object
     \<Rightarrow> (failure + 32 word) \<times> remote_object" where
  "connect e event sub mid s =
     (let (uid, d) = dyn_connect e (dyn s) event sub;
          s1 = s\<lparr>dyn := d\<rparr>;
          msg = \<lparr>msg_id = mid, msg_type = Type_Event, msg_service = Service_Server e,
                 msg_object = GenericObject_Main e,
                 msg_function = ServerFunction_RegisterEvent e,
                 msg_buffer = write_uints e [service s1, event, uid]\<rparr>
      in case socket s1 of
           None \<Rightarrow> (Inl NullSocket, s1)
         | Some sock \<Rightarrow>
             (let (ok, sock') = send msg sock;
                  s2 = s1\<lparr>socket := Some sock'\<rparr>;
                  s3 = (if \<not> ok
                        then qiLog LogError ''remoteobject'' ''error while registering event'' s2
                        else s2)
              in (Inr uid, qiLog LogDebug ''remoteobject'' ''connect() to '' s3)))"

definition disconnect ::
  "env \<Rightarrow> 32 word \<Rightarrow> 32 word \<Rightarrow> remote_object \<Rightarrow> (failure + bool) \<times> remote_object" where
  "disconnect e linkId mid s =
     (let event = drop_bit 16 linkId;
          (ok, d) = dyn_disconnect e (dyn s) linkId;
          s1 = s\<lparr>dyn := d\<rparr>
      in if \<not> ok
         then (Inr False, qiLog LogWarning ''qi.object'' ''Disconnection failure for '' s1)
         else (let msg = \<lparr>msg_id = mid, msg_type = Type_Event,
                           msg_service = Service_Server e,
                           msg_object = GenericObject_Main e,
                           msg_function = ServerFunction_UnregisterEvent e,
                           msg_buffer = write_uints e [service s1, event, linkId]\<rparr>
               in case socket s1 of
                    None \<Rightarrow> (Inl NullSocket, s1)
                  | Some sock \<Rightarrow>
                      (let (sent, sock') = send msg sock;
                           s2 = s1\<lparr>socket := Some sock'\<rparr>
                       in if \<not> sent
                          then (Inr True,
                                qiLog LogError ''remoteobject''
                                  ''error while disconnecting signal'' s2)
                          else (Inr True, s2))))"

subsection \<open>Threads\<close>

text \<open>
  \<^verbatim>\<open>metaCall\<close> may run on any caller thread while \<^verbatim>\<open>onMessagePending\<close> runs on the
  socket's dispatch thread. The two share \<^verbatim>\<open>_promises\<close>, guarded by \<^verbatim>\<open>_mutex\<close>, and
  the promises themselves. A thread is one invocation, at a program point, with its
  local variables; each step below is one critical section of \<^verbatim>\<open>_mutex\<close> or one
  stretch of code between two of them, so that an interleaving of the two functions is a
  schedule of steps.
\<close>

datatype thread =
    MetaCall_begin "32 word" buffer "32 word"
  | MetaCall_insert promise message "32 word"
  | MetaCall_send promise message "32 word"
  | MetaCall_fail promise message "32 word"
  | MetaCall_erase promise message
  | OnMessage_begin message
  | OnMessage_take promise message
  | OnMessage_switch promise bool message
  | Returned "promise option"
  | Crashed failure

fun step :: "env \<Rightarrow> thread \<Rightarrow> remote_object \<Rightarrow> thread \<times> remote_object" where
  "step e (MetaCall_begin m inb mid) s =
     (case mc_begin e m inb mid s of
        (Inl f, s1) \<Rightarrow> (Crashed f, s1)
      | (Inr (out, msg), s1) \<Rightarrow> (MetaCall_insert out msg m, s1))"
| "step e (MetaCall_insert out msg m) s = (MetaCall_send out msg m, mc_insert out msg s)"
| "step e (MetaCall_send out msg m) s =
     (let (ok, s1) = mc_send msg s
      in if ok then (Returned (Some out), s1) else (MetaCall_fail out msg m, s1))"
| "step e (MetaCall_fail out msg m) s = (MetaCall_erase out msg, mc_fail e out m s)"
| "step e (MetaCall_erase out msg) s = (Returned (Some out), mc_erase msg s)"
| "step e (OnMessage_begin msg) s =
     (let (p, s1) = omp_begin msg s in (OnMessage_take p msg, s1))"
| "step e (OnMessage_take p msg) s =
     (let ((q, found), s1) = omp_take p msg s in (OnMessage_switch q found msg, s1))"
| "step e (OnMessage_switch p found msg) s =
     (case omp_switch e p found msg s of
        (Some f, s1) \<Rightarrow> (Crashed f, s1)
      | (None, s1) \<Rightarrow> (Returned None, s1))"
| "step e (Returned r) s = (Returned r, s)"
| "step e (Crashed f) s = (Crashed f, s)"

text \<open>A schedule names, step by step, the thread that moves.\<close>

fun sched_step ::
  "env \<Rightarrow> nat \<Rightarrow> remote_object \<times> thread list \<Rightarrow> remote_object \<times> thread list" where
  "sched_step e i (s, ts) =
     (if i < length ts
      then (let (t, s1) = step e (ts ! i) s in (s1, ts[i := t]))
      else (s, ts))"

definition run ::
  "env \<Rightarrow> nat list \<Rightarrow> remote_object \<times> thread list \<Rightarrow> remote_object \<times> thread list" where
  "run e sched cfg = fold (sched_step e) sched cfg"

text \<open>The promises a thread still has in its local variables.\<close>

fun holds :: "thread \<Rightarrow> promise set" where
  "holds (MetaCall_insert out msg m) = {out}"
| "holds (MetaCall_send out msg m) = {out}"
| "holds (MetaCall_fail out msg m) = {out}"
| "holds (MetaCall_erase out msg) = {out}"
| "holds (OnMessage_take p msg) = {p}"
| "holds (OnMessage_switch p found msg) = {p}"
| "holds _ = {}"

subsection \<open>Fixtures\<close>

text \<open>
  A proxy for service 7 whose meta-object has one method, number 3, and one signal,
  number 9; a release and a debug build of it; sockets that are connected, disconnected,
  and connected but refusing every send.
\<close>

definition payload_boom :: "8 word list" where
  "payload_boom = [1, 115, 4, 98, 111, 111, 109]"

definition env_release :: env where
  "env_release =
     \<lparr>ndebug = True,
      metaObject_method = (\<lambda>m. if m = 3
                     then Some \<lparr>mm_signature = ''reply::(s)'', mm_sigreturn = ''s''\<rparr>
                     else None),
      signalBase = (\<lambda>ev. if ev = 9 then Some ''tick::(i)'' else None),
      signatureSplit = (\<lambda>full. if full = ''reply::(s)'' then [''s'', ''reply'', ''(s)'']
                               else if full = ''tick::(i)'' then ['''', ''tick'', ''(i)'']
                               else ['''', '''', '''']),
      fromSignature = (\<lambda>sig. if sig = ''s'' then Some (\<lambda>b. GenericValue ''s'' (buf_data b))
                              else None),
      read_string = (\<lambda>bs. if bs = payload_boom then (''s'', drop 2 payload_boom)
                            else if bs = drop 2 payload_boom then (''boom'', [])
                            else ('''', [])),
      fromBuffer = (\<lambda>sig b. if buf_data b \<noteq> []
                              then Some [GenericValue sig (buf_data b)] else None),
      write_uints = (\<lambda>ws. \<lparr>buf_signature = ''III'', buf_data = []\<rparr>),
      dyn_connect = (\<lambda>d ev sub. (push_bit 16 ev, (push_bit 16 ev, sub) # d)),
      dyn_disconnect = (\<lambda>d l. (map_of d l \<noteq> None, filter (\<lambda>x. fst x \<noteq> l) d)),
      GenericObject_Main = 1,
      Service_Server = 0,
      ServerFunction_RegisterEvent = 0,
      ServerFunction_UnregisterEvent = 1\<rparr>"

definition env_debug :: env where
  "env_debug = env_release\<lparr>ndebug := False\<rparr>"

definition sock_up :: transport_socket where
  "sock_up = \<lparr>isConnected = True, send_ok = (\<lambda>m. True), handed = []\<rparr>"

definition sock_down :: transport_socket where
  "sock_down = \<lparr>isConnected = False, send_ok = (\<lambda>m. False), handed = []\<rparr>"

definition sock_refusing :: transport_socket where
  "sock_refusing = \<lparr>isConnected = True, send_ok = (\<lambda>m. False), handed = []\<rparr>"

definition proxy0 :: "transport_socket option \<Rightarrow> remote_object" where
  "proxy0 sock =
     \<lparr>socket = sock, service = 7, promises = Map.empty, store = (\<lambda>p. []), fresh = 0,
      log = [], triggered = [], dyn = []\<rparr>"

definition args_s :: buffer where
  "args_s = \<lparr>buf_signature = ''s'', buf_data = [2, 104, 105]\<rparr>"

definition incoming :: "message_type \<Rightarrow> 32 word \<Rightarrow> 32 word \<Rightarrow> 8 word list \<Rightarrow> message" where
  "incoming ty mid fn payload =
     \<lparr>msg_id = mid, msg_type = ty, msg_service = 7, msg_object = 1, msg_function = fn,
      msg_buffer = \<lparr>buf_signature = ''s'', buf_data = payload\<rparr>\<rparr>"

text \<open>The proxy after one call, id 5, went out on a connected socket.\<close>

definition proxy_pending :: remote_object where
  "proxy_pending = snd (metaCall env_release 3 args_s 5 (proxy0 (Some sock_up)))"

text \<open>
  A call, id 5, issued on a socket that refuses the send, while the dispatch thread
  delivers a Reply carrying the same id.
\<close>

definition race_threads :: "thread list" where
  "race_threads =
     [MetaCall_begin 3 args_s 5, OnMessage_begin (incoming Type_Reply 5 3 [2, 111, 107])]"

subsection \<open>Promises out of reach\<close>

text \<open>
  A promise is lost in a state when it has been allocated and the registry maps no id
  to it.
\<close>

definition lost :: "promise \<Rightarrow> remote_object \<Rightarrow> bool" where
  "lost p s = (p < fresh s \<and> (\<forall>k. promises s k \<noteq> Some p))"

text \<open>A Reply for id 5 that reaches the dispatch thread late.\<close>

definition late_reply :: "thread list" where
  "late_reply = [OnMessage_begin (incoming Type_Reply 5 3 [2, 111, 107])]"

text \<open>A proxy without a socket that has one local subscriber on signal 9.\<close>

definition proxy_subscribed :: remote_object where
  "proxy_subscribed = (proxy0 None)\<lparr>dyn := [(push_bit 16 9, 1)]\<rparr>"

text \<open>The same subscriber on a proxy whose socket is disconnected.\<close>

definition proxy_subscribed_down :: remote_object where
  "proxy_subscribed_down = (proxy0 (Some sock_down))\<lparr>dyn := [(push_bit 16 9, 1)]\<rparr>"

section \<open>Transport server: results\<close>

lemma start_result: "fst (start pf base u) = (inet_addr pf (host u) \<noteq> INADDR_NONE)"
  by (simp add: start_def Let_def)

lemma start_rejects_unparsed_host:
  "inet_addr pf (host u) = INADDR_NONE \<Longrightarrow>
     start pf base u =
       (False, [(LogError, ''qimessaging.transportserver'', ''Provided IP is not valid'')])"
  by (simp add: start_def Let_def)

text \<open>
  C6. The claim: start returns false when the host does not parse and on bind failure,
  and returns true only on a successful bind. The first part holds
  (\<open>start_rejects_unparsed_host\<close>). The rest does not: on a platform where
  \<^verbatim>\<open>evconnlistener_new_bind\<close> fails for the address 127.0.0.1:5555, returning no
  listener, start still answers true and logs nothing.
\<close>

theorem start_true_although_bind_failed:
  "evconnlistener_new_bind pf_bind_fails 0
       [LEV_OPT_CLOSE_ON_FREE, LEV_OPT_CLOSE_ON_EXEC, LEV_OPT_REUSEABLE] (- 1)
       \<lparr>sin_family = AF_INET, sin_port = 5555, sin_addr = 0x0100007F\<rparr> = None
   \<and> start pf_bind_fails 0 url_local = (True, [])"
  by (simp add: start_def pf_bind_fails_def url_local_def INADDR_NONE_def Let_def)

lemma accept_with_delegate:
  "tsi p = Some d \<Longrightarrow>
     accept fd l p =
       (None, p\<lparr>connection := connection p @ [\<lparr>as_fd = fd, as_base = lev_base l\<rparr>],
                notified := notified p @ [d]\<rparr>)"
  by (simp add: accept_def evconnlistener_get_base_def Let_def)

text \<open>
  C8. The claim: with no delegate installed the \<^verbatim>\<open>newConnection()\<close> notification of
  the accept path has no effect and does not fault. With a delegate installed the
  notification is delivered (\<open>accept_with_delegate\<close>). On a server on which
  \<^verbatim>\<open>setCallbacks\<close> has not been called, line 64 calls \<^verbatim>\<open>newConnection()\<close>
  through the absent delegate: the accept path stops in a null dereference.
\<close>

theorem accept_without_delegate_faults:
  "tsi TransportServerPrivate_new = None
   \<and> fst (accept 7 listener0 TransportServerPrivate_new) = Some NullDelegate"
  by (simp add: accept_def TransportServerPrivate_new_def Let_def)

section \<open>Remote object: frame lemmas\<close>

lemma debug_signature_check_verdict:
  "fst (debug_signature_check e m inb s) = fst (debug_signature_check e m inb s0)"
  by (simp add: debug_signature_check_def split: option.splits sum.splits)

lemma debug_signature_check_frame:
  "promises (snd (debug_signature_check e m inb s)) = promises s"
  "store (snd (debug_signature_check e m inb s)) = store s"
  "fresh (snd (debug_signature_check e m inb s)) = fresh s"
  "socket (snd (debug_signature_check e m inb s)) = socket s"
  "service (snd (debug_signature_check e m inb s)) = service s"
  by (simp_all add: debug_signature_check_def qiLog_def split: option.splits sum.splits)

lemma mc_begin_passes:
  assumes "fst (debug_signature_check e m inb s) = None"
  shows "\<exists>s1. mc_begin e m inb mid s = (Inr (fresh s, call_message e m inb mid s), s1)
           \<and> promises s1 = promises s \<and> store s1 = (store s)(fresh s := [])
           \<and> fresh s1 = Suc (fresh s) \<and> socket s1 = socket s"
proof -
  let ?s0 = "s\<lparr>store := (store s)(fresh s := []), fresh := Suc (fresh s)\<rparr>"
  obtain r s2 where d: "debug_signature_check e m inb ?s0 = (r, s2)"
    by (cases "debug_signature_check e m inb ?s0")
  have "r = None"
    using assms d debug_signature_check_verdict[of e m inb ?s0 s] by simp
  moreover have "promises s2 = promises s" "store s2 = (store s)(fresh s := [])"
    "fresh s2 = Suc (fresh s)" "socket s2 = socket s" "service s2 = service s"
    using debug_signature_check_frame[of e m inb ?s0] d by simp_all
  ultimately show ?thesis
    using d by (simp add: mc_begin_def new_promise_def call_message_def qiLog_def)
qed

lemma mc_begin_crashes:
  assumes "fst (debug_signature_check e m inb s) = Some f"
  shows "fst (mc_begin e m inb mid s) = Inl f"
proof -
  let ?s0 = "s\<lparr>store := (store s)(fresh s := []), fresh := Suc (fresh s)\<rparr>"
  obtain r s2 where d: "debug_signature_check e m inb ?s0 = (r, s2)"
    by (cases "debug_signature_check e m inb ?s0")
  have "r = Some f"
    using assms d debug_signature_check_verdict[of e m inb ?s0 s] by simp
  then show ?thesis using d by (simp add: mc_begin_def new_promise_def)
qed

lemma mc_insert_frame:
  "promises (mc_insert out msg s) = (promises s)(msg_id msg \<mapsto> out)"
  "store (mc_insert out msg s) = store s"
  "fresh (mc_insert out msg s) = fresh s"
  "socket (mc_insert out msg s) = socket s"
  by (simp_all add: mc_insert_def qiLog_def Let_def)

lemma mc_insert_log:
  "log (mc_insert out msg s) =
     (if promises s (msg_id msg) \<noteq> None
      then log s @ [(LogError, ''remoteobject'', ''There is already a pending promise with id '')]
      else log s)"
  by (simp add: mc_insert_def qiLog_def Let_def)

lemma mc_send_frame:
  "promises (snd (mc_send msg s)) = promises s"
  "store (snd (mc_send msg s)) = store s"
  "fresh (snd (mc_send msg s)) = fresh s"
  "log (snd (mc_send msg s)) = log s"
  by (simp_all add: mc_send_def send_def split: option.splits)

lemma mc_send_verdict:
  "fst (mc_send msg s) =
     (case socket s of None \<Rightarrow> False | Some sock \<Rightarrow> isConnected sock \<and> send_ok sock msg)"
  by (simp add: mc_send_def send_def split: option.splits)

lemma mc_fail_frame:
  "promises (mc_fail e out m s) = promises s"
  "store (mc_fail e out m s) = (store s)(out := store s out @ [Error (network_error_text e m)])"
  "fresh (mc_fail e out m s) = fresh s"
  "log (mc_fail e out m s) = log s @ [(LogError, ''remoteobject'', ''error while sending answer'')]"
  by (simp_all add: mc_fail_def setError_def qiLog_def)

lemma mc_erase_frame:
  "promises (mc_erase msg s) = (promises s)(msg_id msg := None)"
  "store (mc_erase msg s) = store s"
  "fresh (mc_erase msg s) = fresh s"
  "log (mc_erase msg s) = log s"
  by (simp_all add: mc_erase_def)

lemma metaCall_unfold:
  assumes "fst (debug_signature_check e m inb s) = None"
  shows "\<exists>s1. promises s1 = promises s \<and> store s1 = (store s)(fresh s := [])
           \<and> fresh s1 = Suc (fresh s) \<and> socket s1 = socket s
           \<and> metaCall e m inb mid s =
               (let msg = call_message e m inb mid s;
                    s2 = mc_insert (fresh s) msg s1;
                    r = mc_send msg s2
                in if fst r then (Inr (fresh s), snd r)
                   else (Inr (fresh s), mc_erase msg (mc_fail e (fresh s) m (snd r))))"
proof -
  from mc_begin_passes[OF assms, of mid] obtain s1 where
    b: "mc_begin e m inb mid s = (Inr (fresh s, call_message e m inb mid s), s1)"
    and f: "promises s1 = promises s" "store s1 = (store s)(fresh s := [])"
           "fresh s1 = Suc (fresh s)" "socket s1 = socket s"
    by blast
  have "metaCall e m inb mid s =
               (let msg = call_message e m inb mid s;
                    s2 = mc_insert (fresh s) msg s1;
                    r = mc_send msg s2
                in if fst r then (Inr (fresh s), snd r)
                   else (Inr (fresh s), mc_erase msg (mc_fail e (fresh s) m (snd r))))"
    by (simp add: metaCall_def b Let_def split: prod.splits)
  with f show ?thesis by blast
qed

lemma msg_id_call_message [simp]: "msg_id (call_message e m inb mid s) = mid"
  by (simp add: call_message_def)

text \<open>
  What \<^verbatim>\<open>metaCall\<close> does once it is past the debug-build check, when the message
  cannot be sent and when it can.
\<close>

lemma metaCall_send_failure:
  assumes "fst (debug_signature_check e m inb s) = None"
    and "\<not> fst (mc_send (call_message e m inb mid s) s)"
  shows "\<exists>s'. metaCall e m inb mid s = (Inr (fresh s), s')
           \<and> store s' (fresh s) = [Error (network_error_text e m)]
           \<and> promises s' mid = None"
proof -
  from metaCall_unfold[OF assms(1), of mid] obtain s1 where
    f: "promises s1 = promises s" "store s1 = (store s)(fresh s := [])"
       "fresh s1 = Suc (fresh s)" "socket s1 = socket s"
    and mc: "metaCall e m inb mid s =
               (let msg = call_message e m inb mid s;
                    s2 = mc_insert (fresh s) msg s1;
                    r = mc_send msg s2
                in if fst r then (Inr (fresh s), snd r)
                   else (Inr (fresh s), mc_erase msg (mc_fail e (fresh s) m (snd r))))"
    by blast
  let ?msg = "call_message e m inb mid s"
  let ?s2 = "mc_insert (fresh s) ?msg s1"
  have nf: "\<not> fst (mc_send ?msg ?s2)"
    using assms(2) f(4) by (simp add: mc_send_verdict mc_insert_frame)
  then have "metaCall e m inb mid s =
      (Inr (fresh s), mc_erase ?msg (mc_fail e (fresh s) m (snd (mc_send ?msg ?s2))))"
    using mc by (simp add: Let_def)
  then show ?thesis
    by (simp add: mc_erase_frame mc_fail_frame mc_send_frame mc_insert_frame f)
qed

lemma metaCall_sent:
  assumes "fst (debug_signature_check e m inb s) = None"
    and "fst (mc_send (call_message e m inb mid s) s)"
  shows "\<exists>s'. metaCall e m inb mid s = (Inr (fresh s), s')
           \<and> store s' (fresh s) = []
           \<and> promises s' = (promises s)(mid \<mapsto> fresh s)"
proof -
  from metaCall_unfold[OF assms(1), of mid] obtain s1 where
    f: "promises s1 = promises s" "store s1 = (store s)(fresh s := [])"
       "fresh s1 = Suc (fresh s)" "socket s1 = socket s"
    and mc: "metaCall e m inb mid s =
               (let msg = call_message e m inb mid s;
                    s2 = mc_insert (fresh s) msg s1;
                    r = mc_send msg s2
                in if fst r then (Inr (fresh s), snd r)
                   else (Inr (fresh s), mc_erase msg (mc_fail e (fresh s) m (snd r))))"
    by blast
  let ?msg = "call_message e m inb mid s"
  let ?s2 = "mc_insert (fresh s) ?msg s1"
  have nf: "fst (mc_send ?msg ?s2)"
    using assms(2) f(4) by (simp add: mc_send_verdict mc_insert_frame)
  then have "metaCall e m inb mid s = (Inr (fresh s), snd (mc_send ?msg ?s2))"
    using mc by (simp add: Let_def)
  then show ?thesis
    by (simp add: mc_send_frame mc_insert_frame f)
qed

lemma emit_hands_message_to_any_socket:
  "socket s = Some sock \<Longrightarrow>
     socket (snd (metaEmit e ev args mid s)) =
       Some (sock\<lparr>handed := handed sock @
          [\<lparr>msg_id = mid, msg_type = Type_Event, msg_service = service s,
            msg_object = GenericObject_Main e, msg_function = ev, msg_buffer = args\<rparr>]\<rparr>)"
  by (simp add: metaEmit_def send_def qiLog_def Let_def)

lemma metaCall_stopped_in_debug_check:
  assumes "fst (debug_signature_check e m inb s) = Some f"
  shows "\<exists>s'. metaCall e m inb mid s = (Inl f, s') \<and> promises s' = promises s
           \<and> log s' = log s \<and> socket s' = socket s"
proof -
  let ?s0 = "s\<lparr>store := (store s)(fresh s := []), fresh := Suc (fresh s)\<rparr>"
  obtain r s2 where d: "debug_signature_check e m inb ?s0 = (r, s2)"
    by (cases "debug_signature_check e m inb ?s0")
  have r: "r = Some f"
    using assms d debug_signature_check_verdict[of e m inb ?s0 s] by simp
  have "s2 = ?s0"
    using d r by (auto simp: debug_signature_check_def split: if_splits option.splits sum.splits)
  then show ?thesis
    using d r by (simp add: metaCall_def mc_begin_def new_promise_def)
qed

lemma mc_send_not_connected:
  "socket s = None \<or> (\<exists>sock. socket s = Some sock \<and> \<not> isConnected sock) \<Longrightarrow>
     mc_send msg s = (False, s)"
  by (auto simp: mc_send_def)

lemma connect_hands_message_to_any_socket:
  "socket s = Some sock \<Longrightarrow>
     fst (connect e ev sub mid s) = Inr (fst (dyn_connect e (dyn s) ev sub))
     \<and> socket (snd (connect e ev sub mid s)) =
         Some (sock\<lparr>handed := handed sock @
           [\<lparr>msg_id = mid, msg_type = Type_Event, msg_service = Service_Server e,
             msg_object = GenericObject_Main e,
             msg_function = ServerFunction_RegisterEvent e,
             msg_buffer = write_uints e [service s, ev, fst (dyn_connect e (dyn s) ev sub)]\<rparr>]\<rparr>)"
  by (cases "dyn_connect e (dyn s) ev sub") (simp add: connect_def send_def qiLog_def Let_def)

lemma disconnect_hands_message_to_any_socket:
  "socket s = Some sock \<Longrightarrow> fst (dyn_disconnect e (dyn s) l) \<Longrightarrow>
     fst (disconnect e l mid s) = Inr True
     \<and> socket (snd (disconnect e l mid s)) =
         Some (sock\<lparr>handed := handed sock @
           [\<lparr>msg_id = mid, msg_type = Type_Event, msg_service = Service_Server e,
             msg_object = GenericObject_Main e,
             msg_function = ServerFunction_UnregisterEvent e,
             msg_buffer = write_uints e [service s, drop_bit 16 l, l]\<rparr>]\<rparr>)"
  by (cases "dyn_disconnect e (dyn s) l") (simp add: disconnect_def send_def qiLog_def Let_def)

lemma disconnect_unknown_link:
  "\<not> fst (dyn_disconnect e (dyn s) l) \<Longrightarrow>
     fst (disconnect e l mid s) = Inr False
     \<and> socket (snd (disconnect e l mid s)) = socket s"
  by (cases "dyn_disconnect e (dyn s) l") (simp add: disconnect_def qiLog_def Let_def)

lemma emit_returns_with_any_socket:
  "socket s = Some sock \<Longrightarrow> fst (metaEmit e ev args mid s) = None"
  by (simp add: metaEmit_def send_def Let_def)

lemma omp_begin_frame:
  "fst (omp_begin msg s) = fresh s"
  "promises (snd (omp_begin msg s)) = promises s"
  "store (snd (omp_begin msg s)) = (store s)(fresh s := [])"
  "fresh (snd (omp_begin msg s)) = Suc (fresh s)"
  "log (snd (omp_begin msg s)) = log s @ [(LogDebug, ''RemoteObject'', '' msg '')]"
  by (simp_all add: omp_begin_def new_promise_def qiLog_def)

lemma onMessagePending_found:
  assumes "promises s (msg_id msg) = Some p"
  shows "onMessagePending e msg s =
           omp_switch e p True msg
             ((snd (omp_begin msg s))\<lparr>promises := (promises s)(msg_id msg := None)\<rparr>)"
  using assms
  by (simp add: onMessagePending_def omp_take_def omp_begin_def new_promise_def qiLog_def)

lemma onMessagePending_not_found:
  assumes "promises s (msg_id msg) = None"
  shows "onMessagePending e msg s = omp_switch e (fresh s) False msg (snd (omp_begin msg s))"
  using assms
  by (simp add: onMessagePending_def omp_take_def omp_begin_def new_promise_def qiLog_def)

lemma omp_event_frame:
  "promises (snd (omp_event e msg s)) = promises s"
  "store (snd (omp_event e msg s)) = store s"
  "fresh (snd (omp_event e msg s)) = fresh s"
  by (simp_all add: omp_event_def qiLog_def split: option.splits sum.splits)

lemma omp_switch_frame:
  "promises (snd (omp_switch e q found msg s)) = promises s"
  "fresh (snd (omp_switch e q found msg s)) = fresh s"
  "p \<noteq> q \<Longrightarrow> store (snd (omp_switch e q found msg s)) p = store s p"
  by (cases "msg_type msg";
      simp add: omp_switch_def omp_reply_def omp_error_def omp_event_frame qiLog_def
        setError_def setValue_def split: option.splits prod.splits)+

lemma omp_switch_no_resolution:
  "msg_type msg \<noteq> Type_Reply \<Longrightarrow> msg_type msg \<noteq> Type_Error \<Longrightarrow>
     store (snd (omp_switch e q found msg s)) = store s"
  by (cases "msg_type msg") (simp_all add: omp_switch_def omp_event_frame qiLog_def)

lemma onMessagePending_erases:
  "promises (snd (onMessagePending e msg s)) (msg_id msg) = None"
proof (cases "promises s (msg_id msg)")
  case None
  then show ?thesis
    by (simp add: onMessagePending_not_found omp_switch_frame omp_begin_frame)
next
  case (Some p)
  then show ?thesis
    by (simp add: onMessagePending_found omp_switch_frame)
qed

lemma onMessagePending_other_ids:
  "k \<noteq> msg_id msg \<Longrightarrow> promises (snd (onMessagePending e msg s)) k = promises s k"
  by (cases "promises s (msg_id msg)")
     (simp_all add: onMessagePending_found onMessagePending_not_found omp_switch_frame
        omp_begin_frame)

section \<open>Remote object: the function and its thread agree\<close>

lemma metaCall_as_thread:
  "run e [0, 0, 0, 0, 0] (s, [MetaCall_begin m inb mid]) =
     (snd (metaCall e m inb mid s),
      [case fst (metaCall e m inb mid s) of
         Inl f \<Rightarrow> Crashed f | Inr out \<Rightarrow> Returned (Some out)])"
  by (simp add: run_def metaCall_def Let_def split: prod.splits sum.splits)

lemma onMessagePending_as_thread:
  "run e [0, 0, 0] (s, [OnMessage_begin msg]) =
     (snd (onMessagePending e msg s),
      [case fst (onMessagePending e msg s) of
         Some f \<Rightarrow> Crashed f | None \<Rightarrow> Returned None])"
  by (simp add: run_def onMessagePending_def Let_def split: prod.splits option.splits)

section \<open>Remote object: the fixtures evaluated\<close>

lemmas fixture_defs = proxy_pending_def proxy0_def env_release_def env_debug_def sock_up_def
  sock_down_def sock_refusing_def args_s_def incoming_def payload_boom_def
lemmas mc_defs = metaCall_def mc_begin_def mc_insert_def mc_send_def mc_fail_def mc_erase_def
  new_promise_def debug_signature_check_def qiLog_def setError_def setValue_def send_def
  call_message_def network_error_text_def
lemmas omp_defs = onMessagePending_def omp_begin_def omp_take_def omp_switch_def omp_reply_def
  omp_error_def omp_event_def new_promise_def qiLog_def setError_def setValue_def
  arg_tuple_sig_def substr_def msg_event_def

lemma proxy_pending_registry: "promises proxy_pending = [5 \<mapsto> 0]"
  by (simp add: fixture_defs mc_defs)

lemma proxy_pending_store: "store proxy_pending = (\<lambda>p. [])"
  by (simp add: fixture_defs mc_defs fun_eq_iff)

lemma proxy_pending_fresh: "fresh proxy_pending = 1"
  by (simp add: fixture_defs mc_defs)

section \<open>Remote object: promises out of reach stay unresolved\<close>

lemma step_keeps_lost:
  assumes "lost p s" and "p \<notin> holds t" and "step e t s = (t', s')"
  shows "lost p s' \<and> p \<notin> holds t' \<and> store s' p = store s p"
proof (cases t)
  case (MetaCall_begin m inb mid)
  with assms show ?thesis
    by (auto simp: lost_def mc_begin_def new_promise_def debug_signature_check_def qiLog_def
          Let_def split: option.splits sum.splits if_splits prod.splits)
next
  case (MetaCall_insert out msg m)
  with assms show ?thesis by (auto simp: lost_def mc_insert_frame split: if_splits)
next
  case (MetaCall_send out msg m)
  with assms show ?thesis
    by (auto simp: lost_def mc_send_def send_def Let_def split: option.splits if_splits prod.splits)
next
  case (MetaCall_fail out msg m)
  with assms show ?thesis by (auto simp: lost_def mc_fail_frame)
next
  case (MetaCall_erase out msg)
  with assms show ?thesis by (auto simp: lost_def mc_erase_frame split: if_splits)
next
  case (OnMessage_begin msg)
  with assms show ?thesis
    by (auto simp: lost_def omp_begin_def new_promise_def qiLog_def Let_def split: prod.splits)
next
  case (OnMessage_take q msg)
  with assms show ?thesis
    by (auto simp: lost_def omp_take_def Let_def split: option.splits prod.splits if_splits)
next
  case (OnMessage_switch q found msg)
  from assms(1,2) OnMessage_switch have pq: "p \<noteq> q" by simp
  have s': "s' = snd (omp_switch e q found msg s)"
    using assms(3) OnMessage_switch by (auto split: prod.splits option.splits)
  have t': "holds t' = {}"
    using assms(3) OnMessage_switch by (auto split: prod.splits option.splits)
  show ?thesis using assms(1) pq
    by (simp add: s' t' lost_def omp_switch_frame)
next
  case (Returned r)
  with assms show ?thesis by auto
next
  case (Crashed f)
  with assms show ?thesis by auto
qed

lemma run_keeps_lost:
  assumes "lost p s" and "\<forall>t\<in>set ts. p \<notin> holds t"
  shows "store (fst (run e sched (s, ts))) p = store s p"
  using assms
proof (induction sched arbitrary: s ts)
  case Nil
  then show ?case by (simp add: run_def)
next
  case (Cons i sched)
  show ?case
  proof (cases "i < length ts")
    case False
    then have "run e (i # sched) (s, ts) = run e sched (s, ts)" by (simp add: run_def)
    with Cons show ?thesis by simp
  next
    case True
    obtain t' s' where st: "step e (ts ! i) s = (t', s')" by (cases "step e (ts ! i) s")
    from True Cons.prems(2) have "p \<notin> holds (ts ! i)" by simp
    from step_keeps_lost[OF Cons.prems(1) this st]
    have l: "lost p s'" and h: "p \<notin> holds t'" and eq: "store s' p = store s p" by simp_all
    have "\<forall>t\<in>set (ts[i := t']). p \<notin> holds t"
      using Cons.prems(2) h set_update_subset_insert[of ts i t'] by auto
    from Cons.IH[OF l this] eq
    have "store (fst (run e sched (s', ts[i := t']))) p = store s p" by simp
    moreover have "run e (i # sched) (s, ts) = run e sched (s', ts[i := t'])"
      using True st by (simp add: run_def)
    ultimately show ?thesis by simp
  qed
qed

section \<open>Remote object: results\<close>

text \<open>
  C1. The claim: the registry contains a call's id exactly while the call is in flight.
  The entry is there before the send and gone after a Reply, an Error or a send failure
  (\<open>mc_insert_frame\<close>, \<open>onMessagePending_erases\<close>, \<open>metaCall_send_failure\<close>,
  \<open>metaCall_sent\<close>). But call 5, sent on a connected socket and still unanswered,
  loses its entry to an Event for signal 9 that carries id 5: the subscribers are
  triggered, the id is gone from the registry, and promise 0 is unresolved.
\<close>

theorem event_erases_entry_of_call_in_flight:
  "metaCall env_release 3 args_s 5 (proxy0 (Some sock_up)) = (Inr 0, proxy_pending)
   \<and> promises proxy_pending 5 = Some 0
   \<and> fst (onMessagePending env_release (incoming Type_Event 5 9 [42]) proxy_pending) = None
   \<and> promises (snd (onMessagePending env_release (incoming Type_Event 5 9 [42]) proxy_pending)) 5
       = None
   \<and> store (snd (onMessagePending env_release (incoming Type_Event 5 9 [42]) proxy_pending)) 0
       = []
   \<and> triggered (snd (onMessagePending env_release (incoming Type_Event 5 9 [42]) proxy_pending))
       = [(9, [GenericValue ''i'' [42]])]"
  by (simp add: fixture_defs omp_defs mc_defs size_t_minus2_def)

lemma send_failure_then_reply_in_sequence:
  "store (fst (run env_release [0, 0, 0, 0, 0, 1, 1, 1]
                 (proxy0 (Some sock_refusing), race_threads))) 0
     = [Error (''Network error while sending data to method: '' @ [CHR 0x27] @ ''reply::(s)''
                 @ [CHR 0x27])]"
  by (simp add: run_def race_threads_def fixture_defs omp_defs mc_defs)

text \<open>
  C2. The claim: across every interleaving of the dispatch path and the send-failure
  path, the promise of a call receives at most one \<^verbatim>\<open>setValue\<close> or
  \<^verbatim>\<open>setError\<close>. Call 5 is issued on a socket that refuses the send while a Reply
  with id 5 is dispatched. In the first schedule the dispatch thread takes the entry
  before the send fails; in the second it takes it after \<^verbatim>\<open>setError\<close> and before
  the erase. In both the promise receives the network error and the reply's value.
\<close>

theorem send_failure_races_with_reply:
  "store (fst (run env_release [0, 0, 1, 1, 0, 0, 1, 0]
                 (proxy0 (Some sock_refusing), race_threads))) 0
     = [Error (''Network error while sending data to method: '' @ [CHR 0x27] @ ''reply::(s)''
                 @ [CHR 0x27]),
        Value (GenericValue ''s'' [2, 111, 107])]
   \<and> snd (run env_release [0, 0, 1, 1, 0, 0, 1, 0]
                 (proxy0 (Some sock_refusing), race_threads))
     = [Returned (Some 0), Returned None]
   \<and> store (fst (run env_release [0, 0, 0, 0, 1, 1, 1, 0]
                 (proxy0 (Some sock_refusing), race_threads))) 0
     = [Error (''Network error while sending data to method: '' @ [CHR 0x27] @ ''reply::(s)''
                 @ [CHR 0x27]),
        Value (GenericValue ''s'' [2, 111, 107])]"
  by (simp add: run_def race_threads_def fixture_defs omp_defs mc_defs)

text \<open>
  C3, as stated: when the generated id is already in the registry, the existing entry is
  not overwritten. With call 5 pending on promise 0, a second call that is given id 5
  leaves the registry mapping 5 to the new promise 1.
\<close>

theorem duplicate_id_counterexample:
  "promises proxy_pending 5 = Some 0
   \<and> promises (snd (metaCall env_release 3 args_s 5 proxy_pending)) 5 = Some 1"
  by (simp add: fixture_defs mc_defs)

text \<open>
  C3, amended: when \<^verbatim>\<open>metaCall\<close> is past its debug-build signature check (lines
  137--148; always so when \<^verbatim>\<open>NDEBUG\<close> is defined) and is given an id that the
  registry already maps to an allocated promise, it returns a future on a new promise,
  different from the earlier one, an error is logged, and the entry is overwritten: the
  registry afterwards is the old registry with that id mapped to the new promise when
  the message was sent, and with that id removed when the send failed; every other id
  keeps its entry. The earlier promise receives no resolution, and when it was registered
  under that id only, no id maps to it any more.
\<close>

theorem duplicate_id_overwrites_entry:
  assumes "promises s mid = Some p" and "p < fresh s"
    and "fst (debug_signature_check e m inb s) = None"
  shows "\<exists>s'. metaCall e m inb mid s = (Inr (fresh s), s')
           \<and> fresh s \<noteq> p
           \<and> (LogError, ''remoteobject'', ''There is already a pending promise with id '')
                \<in> set (log s')
           \<and> promises s' =
                (promises s)(mid := (if fst (mc_send (call_message e m inb mid s) s)
                                     then Some (fresh s) else None))
           \<and> promises s' mid \<noteq> Some p
           \<and> store s' p = store s p
           \<and> ((\<forall>k. promises s k = Some p \<longrightarrow> k = mid) \<longrightarrow> (\<forall>k. promises s' k \<noteq> Some p))"
proof -
  from metaCall_unfold[OF assms(3), of mid] obtain s1 where
    f: "promises s1 = promises s" "store s1 = (store s)(fresh s := [])"
       "fresh s1 = Suc (fresh s)" "socket s1 = socket s"
    and mc: "metaCall e m inb mid s =
               (let msg = call_message e m inb mid s;
                    s2 = mc_insert (fresh s) msg s1;
                    r = mc_send msg s2
                in if fst r then (Inr (fresh s), snd r)
                   else (Inr (fresh s), mc_erase msg (mc_fail e (fresh s) m (snd r))))"
    by blast
  let ?msg = "call_message e m inb mid s"
  let ?s2 = "mc_insert (fresh s) ?msg s1"
  let ?err = "(LogError, ''remoteobject'', ''There is already a pending promise with id '')"
  have ne: "fresh s \<noteq> p" using assms(2) by simp
  have lg: "?err \<in> set (log ?s2)"
    using assms(1) f(1) by (simp add: mc_insert_log)
  have v: "fst (mc_send ?msg ?s2) = fst (mc_send ?msg s)"
    using f(4) by (simp add: mc_send_verdict mc_insert_frame)
  show ?thesis
  proof (cases "fst (mc_send ?msg s)")
    case True
    with v mc have r: "metaCall e m inb mid s = (Inr (fresh s), snd (mc_send ?msg ?s2))"
      by (simp add: Let_def)
    let ?s' = "snd (mc_send ?msg ?s2)"
    have pr: "promises ?s' = (promises s)(mid \<mapsto> fresh s)"
      by (simp add: mc_send_frame mc_insert_frame f)
    have "\<forall>k. promises ?s' k \<noteq> Some p" if "\<forall>k. promises s k = Some p \<longrightarrow> k = mid"
      using that ne by (auto simp: pr)
    with True lg ne r pr show ?thesis
      by (simp add: mc_send_frame mc_insert_frame f)
  next
    case False
    with v mc have r: "metaCall e m inb mid s =
        (Inr (fresh s), mc_erase ?msg (mc_fail e (fresh s) m (snd (mc_send ?msg ?s2))))"
      by (simp add: Let_def)
    let ?s' = "mc_erase ?msg (mc_fail e (fresh s) m (snd (mc_send ?msg ?s2)))"
    have pr: "promises ?s' = (promises s)(mid := None)"
      by (simp add: mc_erase_frame mc_fail_frame mc_send_frame mc_insert_frame f)
    have "\<forall>k. promises ?s' k \<noteq> Some p" if "\<forall>k. promises s k = Some p \<longrightarrow> k = mid"
      using that by (auto simp: pr)
    with False lg ne r pr show ?thesis
      by (simp add: mc_erase_frame mc_fail_frame mc_send_frame mc_insert_frame f)
  qed
qed

text \<open>The amended C3 on the pending call 5, in a debug build.\<close>

theorem duplicate_id_overwrites_entry_witness:
  "promises proxy_pending 5 = Some 0 \<and> 0 < fresh proxy_pending
   \<and> fst (debug_signature_check env_debug 3 args_s proxy_pending) = None
   \<and> promises proxy_pending = [5 \<mapsto> 0]
   \<and> (\<exists>s'. metaCall env_debug 3 args_s 5 proxy_pending = (Inr 1, s')
          \<and> (LogError, ''remoteobject'', ''There is already a pending promise with id '')
                \<in> set (log s')
          \<and> promises s' = [5 \<mapsto> 1] \<and> store s' 0 = []
          \<and> (\<forall>k. promises s' k \<noteq> Some 0))"
proof -
  have h1: "promises proxy_pending 5 = Some 0" by (simp add: proxy_pending_registry)
  have h2: "(0::nat) < fresh proxy_pending" by (simp add: proxy_pending_fresh)
  have h3: "fst (debug_signature_check env_debug 3 args_s proxy_pending) = None"
    by (simp add: debug_signature_check_def arg_tuple_sig_def substr_def size_t_minus2_def
          env_debug_def env_release_def args_s_def)
  have snd: "fst (mc_send (call_message env_debug 3 args_s 5 proxy_pending) proxy_pending)"
    by (simp add: mc_send_verdict fixture_defs mc_defs)
  have only: "\<forall>k. promises proxy_pending k = Some 0 \<longrightarrow> k = 5"
    by (simp add: proxy_pending_registry)
  from duplicate_id_overwrites_entry[OF h1 h2 h3] obtain s' where
    c1: "metaCall env_debug 3 args_s 5 proxy_pending = (Inr (fresh proxy_pending), s')"
    and c2: "(LogError, ''remoteobject'', ''There is already a pending promise with id '')
                \<in> set (log s')"
    and c3: "promises s' = (promises proxy_pending)(5 :=
           (if fst (mc_send (call_message env_debug 3 args_s 5 proxy_pending) proxy_pending)
            then Some (fresh proxy_pending) else None))"
    and c4: "store s' 0 = store proxy_pending 0"
    and c5: "(\<forall>k. promises proxy_pending k = Some 0 \<longrightarrow> k = 5)
          \<longrightarrow> (\<forall>k. promises s' k \<noteq> Some 0)"
    by (elim exE conjE) (rule that)
  from c5 only have gone: "\<forall>k. promises s' k \<noteq> Some 0" by (rule mp)
  have m: "metaCall env_debug 3 args_s 5 proxy_pending = (Inr 1, s')"
    using c1 by (simp add: proxy_pending_fresh)
  have r: "promises s' = [5 \<mapsto> 1]"
    using c3 snd by (simp add: proxy_pending_fresh proxy_pending_registry)
  have st: "store s' 0 = []" using c4 by (simp add: proxy_pending_store)
  from m c2 r st gone have "\<exists>s'. metaCall env_debug 3 args_s 5 proxy_pending = (Inr 1, s')
          \<and> (LogError, ''remoteobject'', ''There is already a pending promise with id '')
                \<in> set (log s')
          \<and> promises s' = [5 \<mapsto> 1] \<and> store s' 0 = []
          \<and> (\<forall>k. promises s' k \<noteq> Some 0)"
    by (intro exI[of _ s'] conjI)
  with h1 h2 h3 proxy_pending_registry show ?thesis by (intro conjI)
qed

lemma metaCall_release_build_unknown_method:
  "\<exists>s'. metaCall env_release 99 args_s 5 (proxy0 None) = (Inr 0, s')
     \<and> store s' 0 = [Error ''Network error while sending data an unknown method (id=99)'']
     \<and> promises s' 5 = None"
  by (simp add: fixture_defs mc_defs dec.simps)

text \<open>
  C4. The claim: when the socket is absent, disconnected or refuses the send, the
  returned future is already resolved with an error that names the method's signature, or
  reports the unknown method id, and the entry is removed. A release build does so
  (\<open>metaCall_send_failure\<close>). In a debug build the signature check of lines 137--148
  goes through the method pointer first: for the unknown method 99 and an absent socket
  \<^verbatim>\<open>metaCall\<close> stops there and returns no future.
\<close>

theorem metaCall_debug_build_unknown_method:
  "socket (proxy0 None) = None \<and> metaObject_method env_debug 99 = None
   \<and> fst (metaCall env_debug 99 args_s 5 (proxy0 None)) = Inl NullMethod"
  by (simp add: fixture_defs mc_defs)

lemma reply_for_unknown_id_dropped:
  assumes "promises s (msg_id msg) = None" and "msg_type msg = Type_Reply"
  shows "onMessagePending e msg s =
           (None, s\<lparr>store := (store s)(fresh s := []), fresh := Suc (fresh s),
                    log := log s @ [(LogDebug, ''RemoteObject'', '' msg ''),
                                    (LogError, ''remoteobject'', ''no promise found for req id:'')]\<rparr>)"
  using assms
  by (simp add: onMessagePending_not_found omp_switch_def omp_reply_def omp_begin_def
        new_promise_def qiLog_def)

text \<open>
  C5. The claim: a Reply or an Error whose id is not in the registry is logged at error
  level and dropped, and no completion slot is resolved. A Reply is
  (\<open>reply_for_unknown_id_dropped\<close>). The Error branch has no test of \<open>found\<close>: an
  Error with the well-formed payload \<open>s:boom\<close> and the unknown id 7 is logged at
  verbose level only, and its error string is set on the default-constructed local
  promise.
\<close>

theorem error_for_unknown_id_is_processed:
  "promises (proxy0 (Some sock_up)) (msg_id (incoming Type_Error 7 3 payload_boom)) = None
   \<and> fst (onMessagePending env_release (incoming Type_Error 7 3 payload_boom)
            (proxy0 (Some sock_up))) = None
   \<and> log (snd (onMessagePending env_release (incoming Type_Error 7 3 payload_boom)
                 (proxy0 (Some sock_up))))
       = [(LogDebug, ''RemoteObject'', '' msg ''),
          (LogVerbose, ''remoteobject'', ''Received error message'')]
   \<and> store (snd (onMessagePending env_release (incoming Type_Error 7 3 payload_boom)
                   (proxy0 (Some sock_up)))) 0
       = [Error ''boom'']"
  by (simp add: fixture_defs omp_defs)

text \<open>
  C7. For an inbound Error message whose id matches a pending call, the payload is read
  as a signature string followed by an error string; the call's promise receives
  exactly one more resolution: the error ``unknown error'' when the signature is not
  \<open>''s''\<close>, the error string read from the payload otherwise. The entry leaves the
  registry and the function returns normally.
\<close>

theorem error_message_resolves_pending_call:
  assumes "promises s (msg_id msg) = Some p" and "p < fresh s"
    and "msg_type msg = Type_Error"
  shows "\<exists>s'. onMessagePending e msg s = (None, s')
           \<and> promises s' (msg_id msg) = None
           \<and> store s' p = store s p @
               [Error (if fst (read_string e (buf_data (msg_buffer msg))) \<noteq> ''s''
                       then ''unknown error''
                       else fst (read_string e
                                   (snd (read_string e (buf_data (msg_buffer msg))))))]"
proof -
  let ?s2 = "(snd (omp_begin msg s))\<lparr>promises := (promises s)(msg_id msg := None)\<rparr>"
  have run: "onMessagePending e msg s = (None, omp_error e p msg ?s2)"
    using assms(1,3) by (simp add: onMessagePending_found omp_switch_def)
  have st: "store ?s2 p = store s p"
    using assms(2) by (simp add: omp_begin_frame)
  have "store (omp_error e p msg ?s2) p = store ?s2 p @
               [Error (if fst (read_string e (buf_data (msg_buffer msg))) \<noteq> ''s''
                       then ''unknown error''
                       else fst (read_string e
                                   (snd (read_string e (buf_data (msg_buffer msg))))))]"
    by (simp add: omp_error_def setError_def qiLog_def split: prod.splits)
  moreover have "promises (omp_error e p msg ?s2) (msg_id msg) = None"
    by (simp add: omp_error_def setError_def qiLog_def split: prod.splits)
  ultimately show ?thesis using run st by simp
qed

text \<open>
  C7 on the pending call 5: a payload \<open>s:boom\<close> resolves it with ``boom'', a payload
  whose signature is \<open>i\<close> resolves it with ``unknown error''.
\<close>

theorem error_message_resolves_pending_call_witness:
  "promises proxy_pending (msg_id (incoming Type_Error 5 3 payload_boom)) = Some 0
   \<and> 0 < fresh proxy_pending
   \<and> msg_type (incoming Type_Error 5 3 payload_boom) = Type_Error
   \<and> (\<exists>s'. onMessagePending env_release (incoming Type_Error 5 3 payload_boom) proxy_pending
               = (None, s')
          \<and> promises s' 5 = None \<and> store s' 0 = [Error ''boom''])
   \<and> (\<exists>s'. onMessagePending env_release (incoming Type_Error 5 3 [1, 105, 0]) proxy_pending
               = (None, s')
          \<and> promises s' 5 = None \<and> store s' 0 = [Error ''unknown error''])"
proof -
  have h1: "promises proxy_pending (msg_id (incoming Type_Error 5 3 payload_boom)) = Some 0"
    by (simp add: proxy_pending_registry incoming_def)
  have h1': "promises proxy_pending (msg_id (incoming Type_Error 5 3 [1, 105, 0])) = Some 0"
    by (simp add: proxy_pending_registry incoming_def)
  have h2: "(0::nat) < fresh proxy_pending" by (simp add: proxy_pending_fresh)
  have h3: "msg_type (incoming Type_Error 5 3 payload_boom) = Type_Error"
    by (simp add: incoming_def)
  have h3': "msg_type (incoming Type_Error 5 3 [1, 105, 0]) = Type_Error"
    by (simp add: incoming_def)
  show ?thesis
    using h1 h2 h3
      error_message_resolves_pending_call[OF h1 h2 h3, of env_release]
      error_message_resolves_pending_call[OF h1' h2 h3', of env_release]
    by (simp add: proxy_pending_store incoming_def env_release_def payload_boom_def)
qed

text \<open>
  C9, as stated: \<^verbatim>\<open>metaEmit\<close>, \<^verbatim>\<open>connect\<close> and \<^verbatim>\<open>disconnect\<close> each go
  through the stored socket unconditionally. \<^verbatim>\<open>disconnect\<close> does not: on a proxy
  without a socket, for a link the local table does not know, it returns false and
  never reaches \<^verbatim>\<open>_socket->send\<close>.
\<close>

theorem disconnect_unknown_link_counterexample:
  "socket (proxy0 None) = None
   \<and> fst (dyn_disconnect env_release (dyn (proxy0 None)) 1) = False
   \<and> fst (disconnect env_release 1 5 (proxy0 None)) = Inr False"
  by (simp add: disconnect_def proxy0_def env_release_def qiLog_def)

text \<open>
  C9, amended. \<^verbatim>\<open>metaEmit\<close> and \<^verbatim>\<open>connect\<close> always, and
  \<^verbatim>\<open>disconnect\<close> whenever the local disconnection succeeded, call
  \<^verbatim>\<open>_socket->send\<close> with no test of the socket and no call of
  \<^verbatim>\<open>isConnected\<close>: with no socket they stop in a null dereference, with a socket,
  connected or not, they return and their message has been handed to \<^verbatim>\<open>send\<close>.
  When the local disconnection fails \<^verbatim>\<open>disconnect\<close> returns false and leaves the
  socket alone. \<^verbatim>\<open>metaCall\<close> never stops in a null socket; when it is past its
  debug-build signature check (lines 137--148; always so when \<^verbatim>\<open>NDEBUG\<close> is
  defined) and the socket is absent or disconnected, it returns a future already failed
  with the network error, with the entry removed and without calling \<^verbatim>\<open>send\<close>.
\<close>

theorem socket_tested_by_metaCall_only:
  "(socket s = None \<longrightarrow>
      fst (metaEmit e ev args mid s) = Some NullSocket
      \<and> fst (connect e ev sub mid s) = Inl NullSocket
      \<and> (fst (dyn_disconnect e (dyn s) l) \<longrightarrow> fst (disconnect e l mid s) = Inl NullSocket))
   \<and> (\<not> fst (dyn_disconnect e (dyn s) l) \<longrightarrow>
        fst (disconnect e l mid s) = Inr False
        \<and> socket (snd (disconnect e l mid s)) = socket s)
   \<and> (socket s = Some sock \<longrightarrow>
        fst (metaEmit e ev args mid s) = None
        \<and> socket (snd (metaEmit e ev args mid s)) =
            Some (sock\<lparr>handed := handed sock @
              [\<lparr>msg_id = mid, msg_type = Type_Event, msg_service = service s,
                msg_object = GenericObject_Main e, msg_function = ev,
                msg_buffer = args\<rparr>]\<rparr>)
        \<and> fst (connect e ev sub mid s) = Inr (fst (dyn_connect e (dyn s) ev sub))
        \<and> socket (snd (connect e ev sub mid s)) =
            Some (sock\<lparr>handed := handed sock @
              [\<lparr>msg_id = mid, msg_type = Type_Event, msg_service = Service_Server e,
                msg_object = GenericObject_Main e,
                msg_function = ServerFunction_RegisterEvent e,
                msg_buffer =
                  write_uints e [service s, ev, fst (dyn_connect e (dyn s) ev sub)]\<rparr>]\<rparr>)
        \<and> (fst (dyn_disconnect e (dyn s) l) \<longrightarrow>
             fst (disconnect e l mid s) = Inr True
             \<and> socket (snd (disconnect e l mid s)) =
                 Some (sock\<lparr>handed := handed sock @
                   [\<lparr>msg_id = mid, msg_type = Type_Event, msg_service = Service_Server e,
                     msg_object = GenericObject_Main e,
                     msg_function = ServerFunction_UnregisterEvent e,
                     msg_buffer = write_uints e [service s, drop_bit 16 l, l]\<rparr>]\<rparr>)))
   \<and> fst (metaCall e m inb mid s) \<noteq> Inl NullSocket
   \<and> ((socket s = None \<or> (\<exists>sock'. socket s = Some sock' \<and> \<not> isConnected sock'))
        \<and> fst (debug_signature_check e m inb s) = None \<longrightarrow>
      (\<exists>s'. metaCall e m inb mid s = (Inr (fresh s), s')
          \<and> store s' (fresh s) = [Error (network_error_text e m)]
          \<and> promises s' mid = None
          \<and> socket s' = socket s))"
proof -
  have emit: "fst (metaEmit e ev args mid s) = Some NullSocket" if "socket s = None"
    using that by (simp add: metaEmit_def)
  have conn: "fst (connect e ev sub mid s) = Inl NullSocket" if "socket s = None"
    using that by (simp add: connect_def Let_def split: prod.splits)
  have disc: "fst (disconnect e l mid s) = Inl NullSocket"
    if "socket s = None" "fst (dyn_disconnect e (dyn s) l)"
    using that by (cases "dyn_disconnect e (dyn s) l") (simp add: disconnect_def Let_def)
  have call: "fst (metaCall e m inb mid s) \<noteq> Inl NullSocket"
  proof (cases "fst (debug_signature_check e m inb s)")
    case None
    from metaCall_unfold[OF None, of mid] show ?thesis
      by (auto simp: Let_def split: if_splits)
  next
    case (Some f)
    then have "f \<noteq> NullSocket"
      by (auto simp: debug_signature_check_def arg_tuple_sig_def substr_def Let_def
            split: if_splits option.splits sum.splits)
    moreover from metaCall_stopped_in_debug_check[OF Some, of mid]
    have "fst (metaCall e m inb mid s) = Inl f" by auto
    ultimately show ?thesis by simp
  qed
  have graceful: "\<exists>s'. metaCall e m inb mid s = (Inr (fresh s), s')
          \<and> store s' (fresh s) = [Error (network_error_text e m)]
          \<and> promises s' mid = None
          \<and> socket s' = socket s"
    if d: "fst (debug_signature_check e m inb s) = None"
      and no: "socket s = None \<or> (\<exists>sock'. socket s = Some sock' \<and> \<not> isConnected sock')"
  proof -
    from metaCall_unfold[OF d, of mid] obtain s1 where
      f: "promises s1 = promises s" "store s1 = (store s)(fresh s := [])"
         "fresh s1 = Suc (fresh s)" "socket s1 = socket s"
      and mc: "metaCall e m inb mid s =
               (let msg = call_message e m inb mid s;
                    s2 = mc_insert (fresh s) msg s1;
                    r = mc_send msg s2
                in if fst r then (Inr (fresh s), snd r)
                   else (Inr (fresh s), mc_erase msg (mc_fail e (fresh s) m (snd r))))"
      by blast
    let ?msg = "call_message e m inb mid s"
    let ?s2 = "mc_insert (fresh s) ?msg s1"
    have s2: "socket ?s2 = socket s" using f(4) by (simp add: mc_insert_frame)
    have r: "mc_send ?msg ?s2 = (False, ?s2)"
      using no s2 by (simp add: mc_send_not_connected)
    then have "metaCall e m inb mid s =
        (Inr (fresh s), mc_erase ?msg (mc_fail e (fresh s) m ?s2))"
      using mc by (simp add: Let_def)
    then show ?thesis
      using s2 by (simp add: mc_erase_frame mc_fail_frame mc_insert_frame f
            mc_erase_def mc_fail_def setError_def qiLog_def)
  qed
  from emit conn disc call graceful
    disconnect_unknown_link[of e s l mid]
    emit_returns_with_any_socket[of s sock e ev args mid]
    emit_hands_message_to_any_socket[of s sock e ev args mid]
    connect_hands_message_to_any_socket[of s sock e ev sub mid]
    disconnect_hands_message_to_any_socket[of s sock e l mid]
  show ?thesis by blast
qed

text \<open>
  The amended C9 on a proxy without a socket and on a proxy whose socket is
  disconnected, each with one local subscriber on signal 9; link 1 is unknown to both.
\<close>

theorem socket_tested_by_metaCall_only_witness:
  "socket proxy_subscribed = None
   \<and> fst (dyn_disconnect env_release (dyn proxy_subscribed) (push_bit 16 9))
   \<and> fst (metaEmit env_release 9 args_s 5 proxy_subscribed) = Some NullSocket
   \<and> fst (connect env_release 9 2 5 proxy_subscribed) = Inl NullSocket
   \<and> fst (disconnect env_release (push_bit 16 9) 5 proxy_subscribed) = Inl NullSocket
   \<and> fst (metaCall env_release 3 args_s 5 proxy_subscribed) \<noteq> Inl NullSocket
   \<and> fst (dyn_disconnect env_release (dyn proxy_subscribed) 1) = False
   \<and> fst (disconnect env_release 1 5 proxy_subscribed) = Inr False
   \<and> socket proxy_subscribed_down = Some sock_down \<and> isConnected sock_down = False
   \<and> fst (dyn_disconnect env_release (dyn proxy_subscribed_down) (push_bit 16 9))
   \<and> fst (debug_signature_check env_release 3 args_s proxy_subscribed_down) = None
   \<and> fst (metaEmit env_release 9 args_s 5 proxy_subscribed_down) = None
   \<and> fst (connect env_release 9 2 5 proxy_subscribed_down) = Inr (push_bit 16 9)
   \<and> fst (disconnect env_release (push_bit 16 9) 5 proxy_subscribed_down) = Inr True
   \<and> (\<exists>sock'. socket (snd (metaEmit env_release 9 args_s 5 proxy_subscribed_down)) = Some sock'
          \<and> map msg_function (handed sock') = [9])
   \<and> (\<exists>sock'. socket (snd (connect env_release 9 2 5 proxy_subscribed_down)) = Some sock'
          \<and> map msg_function (handed sock') = [0])
   \<and> (\<exists>sock'. socket (snd (disconnect env_release (push_bit 16 9) 5 proxy_subscribed_down))
            = Some sock'
          \<and> map msg_function (handed sock') = [1])
   \<and> (\<exists>s'. metaCall env_release 3 args_s 5 proxy_subscribed_down = (Inr 0, s')
          \<and> store s' 0 = [Error (''Network error while sending data to method: ''
                                   @ [CHR 0x27] @ ''reply::(s)'' @ [CHR 0x27])]
          \<and> promises s' 5 = None \<and> socket s' = Some sock_down)"
proof -
  have n: "socket proxy_subscribed = None" by (simp add: proxy_subscribed_def proxy0_def)
  have l: "fst (dyn_disconnect env_release (dyn proxy_subscribed) (push_bit 16 9))"
    by (simp add: proxy_subscribed_def proxy0_def env_release_def)
  have u: "\<not> fst (dyn_disconnect env_release (dyn proxy_subscribed) 1)"
    by (simp add: proxy_subscribed_def proxy0_def env_release_def)
  have c: "socket proxy_subscribed_down = Some sock_down"
    by (simp add: proxy_subscribed_down_def proxy0_def)
  have nc: "\<not> isConnected sock_down" by (simp add: sock_down_def)
  have l': "fst (dyn_disconnect env_release (dyn proxy_subscribed_down) (push_bit 16 9))"
    by (simp add: proxy_subscribed_down_def proxy0_def env_release_def)
  have d: "fst (debug_signature_check env_release 3 args_s proxy_subscribed_down) = None"
    by (simp add: debug_signature_check_def env_release_def)
  have tx: "network_error_text env_release 3 =
      ''Network error while sending data to method: '' @ [CHR 0x27] @ ''reply::(s)'' @ [CHR 0x27]"
    by (simp add: network_error_text_def env_release_def)
  have f0: "fresh proxy_subscribed_down = 0"
    by (simp add: proxy_subscribed_down_def proxy0_def)
  have uid: "fst (dyn_connect env_release (dyn proxy_subscribed_down) 9 2) = push_bit 16 9"
    by (simp add: env_release_def)
  have hd: "handed sock_down = []" by (simp add: sock_down_def)
  have fn: "ServerFunction_RegisterEvent env_release = 0"
    "ServerFunction_UnregisterEvent env_release = 1"
    by (simp_all add: env_release_def)
  note t1 = socket_tested_by_metaCall_only
              [where s = proxy_subscribed and e = env_release and ev = 9 and args = args_s
                 and mid = 5 and sub = 2 and l = "push_bit 16 9" and m = 3 and inb = args_s
                 and sock = sock_down]
  note t2 = socket_tested_by_metaCall_only
              [where s = proxy_subscribed and e = env_release and ev = 9 and args = args_s
                 and mid = 5 and sub = 2 and l = 1 and m = 3 and inb = args_s
                 and sock = sock_down]
  note t3 = socket_tested_by_metaCall_only
              [where s = proxy_subscribed_down and e = env_release and ev = 9
                 and args = args_s and mid = 5 and sub = 2 and l = "push_bit 16 9" and m = 3
                 and inb = args_s and sock = sock_down]
  from t1 n l have a: "fst (metaEmit env_release 9 args_s 5 proxy_subscribed) = Some NullSocket
   \<and> fst (connect env_release 9 2 5 proxy_subscribed) = Inl NullSocket
   \<and> fst (disconnect env_release (push_bit 16 9) 5 proxy_subscribed) = Inl NullSocket
   \<and> fst (metaCall env_release 3 args_s 5 proxy_subscribed) \<noteq> Inl NullSocket"
    by blast
  from t2 u have b: "fst (disconnect env_release 1 5 proxy_subscribed) = Inr False"
    by blast
  from t3 c l' have e1: "fst (metaEmit env_release 9 args_s 5 proxy_subscribed_down) = None"
    and e2: "fst (connect env_release 9 2 5 proxy_subscribed_down) = Inr (push_bit 16 9)"
    and e3: "fst (disconnect env_release (push_bit 16 9) 5 proxy_subscribed_down) = Inr True"
    by (simp_all add: uid)
  from t3 c l' have g1: "\<exists>sock'. socket (snd (metaEmit env_release 9 args_s 5
        proxy_subscribed_down)) = Some sock' \<and> map msg_function (handed sock') = [9]"
    by (simp add: hd)
  from t3 c l' have g2: "\<exists>sock'. socket (snd (connect env_release 9 2 5
        proxy_subscribed_down)) = Some sock' \<and> map msg_function (handed sock') = [0]"
    by (simp add: hd fn)
  from t3 c l' have g3: "\<exists>sock'. socket (snd (disconnect env_release (push_bit 16 9) 5
        proxy_subscribed_down)) = Some sock' \<and> map msg_function (handed sock') = [1]"
    by (simp add: hd fn)
  from t3 c nc d have g4: "\<exists>s'. metaCall env_release 3 args_s 5 proxy_subscribed_down = (Inr 0, s')
          \<and> store s' 0 = [Error (''Network error while sending data to method: ''
                                   @ [CHR 0x27] @ ''reply::(s)'' @ [CHR 0x27])]
          \<and> promises s' 5 = None \<and> socket s' = Some sock_down"
    by (simp add: tx f0)
  from n l u c nc l' d a b e1 e2 e3 g1 g2 g3 g4 show ?thesis by simp
qed

text \<open>
  C10. \<^verbatim>\<open>onMessagePending\<close> erases the registry entry of the message's id before it
  looks at the type, for every type. When the id is that of a pending call and the
  message is neither a Reply nor an Error (an Event, a Call, any other type), the call's
  promise receives no resolution; and if the promise was registered under that id only
  and no invocation in progress holds it, no schedule of later \<^verbatim>\<open>metaCall\<close> and
  \<^verbatim>\<open>onMessagePending\<close> steps ever resolves it.
\<close>

theorem any_message_erases_entry_without_type_check:
  "promises (snd (onMessagePending e msg s)) (msg_id msg) = None
   \<and> (promises s (msg_id msg) = Some p \<and> p < fresh s
        \<and> (\<forall>k. promises s k = Some p \<longrightarrow> k = msg_id msg)
        \<and> msg_type msg \<noteq> Type_Reply \<and> msg_type msg \<noteq> Type_Error
        \<and> (\<forall>t\<in>set ts. p \<notin> holds t)
      \<longrightarrow> store (snd (onMessagePending e msg s)) p = store s p
          \<and> (\<forall>sched. store (fst (run e sched (snd (onMessagePending e msg s), ts))) p
                        = store s p))"
proof -
  have erased: "promises (snd (onMessagePending e msg s)) (msg_id msg) = None"
    by (rule onMessagePending_erases)
  have kept: "store (snd (onMessagePending e msg s)) p = store s p
          \<and> (\<forall>sched. store (fst (run e sched (snd (onMessagePending e msg s), ts))) p
                        = store s p)"
    if a: "promises s (msg_id msg) = Some p \<and> p < fresh s
        \<and> (\<forall>k. promises s k = Some p \<longrightarrow> k = msg_id msg)
        \<and> msg_type msg \<noteq> Type_Reply \<and> msg_type msg \<noteq> Type_Error
        \<and> (\<forall>t\<in>set ts. p \<notin> holds t)"
  proof -
    let ?s' = "snd (onMessagePending e msg s)"
    let ?s2 = "(snd (omp_begin msg s))\<lparr>promises := (promises s)(msg_id msg := None)\<rparr>"
    have eq: "?s' = snd (omp_switch e p True msg ?s2)"
      using a by (simp add: onMessagePending_found)
    have st: "store ?s' p = store s p"
      using a by (simp add: eq omp_switch_no_resolution omp_begin_frame)
    have "lost p ?s'"
      unfolding lost_def
    proof (intro conjI allI)
      show "p < fresh ?s'" using a by (simp add: eq omp_switch_frame omp_begin_frame)
    next
      fix k
      show "promises ?s' k \<noteq> Some p"
      proof (cases "k = msg_id msg")
        case True
        then show ?thesis by (simp add: onMessagePending_erases)
      next
        case False
        then have "promises ?s' k = promises s k" by (rule onMessagePending_other_ids)
        with False a show ?thesis by auto
      qed
    qed
    with a have "\<forall>sched. store (fst (run e sched (?s', ts))) p = store ?s' p"
      by (simp add: run_keeps_lost)
    with st show ?thesis by simp
  qed
  from erased kept show ?thesis by blast
qed

text \<open>
  C10 on the pending call 5: an Event for signal 9 that carries id 5 erases the entry and
  leaves promise 0 unresolved, also after a Reply for id 5 is dispatched.
\<close>

theorem any_message_erases_entry_without_type_check_witness:
  "promises proxy_pending (msg_id (incoming Type_Event 5 9 [42])) = Some 0
   \<and> 0 < fresh proxy_pending
   \<and> promises proxy_pending = [5 \<mapsto> 0]
   \<and> msg_type (incoming Type_Event 5 9 [42]) \<noteq> Type_Reply
   \<and> msg_type (incoming Type_Event 5 9 [42]) \<noteq> Type_Error
   \<and> holds (OnMessage_begin (incoming Type_Reply 5 3 [2, 111, 107])) = {}
   \<and> promises (snd (onMessagePending env_release (incoming Type_Event 5 9 [42]) proxy_pending)) 5
       = None
   \<and> store (snd (onMessagePending env_release (incoming Type_Event 5 9 [42]) proxy_pending)) 0
       = []
   \<and> store (fst (run env_release [0, 0, 0]
        (snd (onMessagePending env_release (incoming Type_Event 5 9 [42]) proxy_pending),
         late_reply))) 0 = []"
proof -
  have h: "promises proxy_pending (msg_id (incoming Type_Event 5 9 [42])) = Some 0
   \<and> 0 < fresh proxy_pending
   \<and> (\<forall>k. promises proxy_pending k = Some 0 \<longrightarrow> k = msg_id (incoming Type_Event 5 9 [42]))
   \<and> msg_type (incoming Type_Event 5 9 [42]) \<noteq> Type_Reply
   \<and> msg_type (incoming Type_Event 5 9 [42]) \<noteq> Type_Error
   \<and> (\<forall>t\<in>set late_reply. 0 \<notin> holds t)"
    by (simp add: proxy_pending_registry proxy_pending_fresh incoming_def late_reply_def)
  have m: "msg_id (incoming Type_Event 5 9 [42]) = 5" by (simp add: incoming_def)
  note c = any_message_erases_entry_without_type_check
              [of env_release "incoming Type_Event 5 9 [42]" proxy_pending 0 late_reply]
  note c1 = c[THEN conjunct1]
  note c2 = c[THEN conjunct2, THEN mp, OF h]
  note c3 = c2[THEN conjunct2, THEN spec, of "[0, 0, 0]"]
  from c1 have "promises (snd (onMessagePending env_release (incoming Type_Event 5 9 [42])
      proxy_pending)) 5 = None"
    by (simp only: m)
  moreover from c2 have "store (snd (onMessagePending env_release (incoming Type_Event 5 9 [42])
      proxy_pending)) 0 = []"
    by (simp add: proxy_pending_store)
  moreover from c3 have "store (fst (run env_release [0, 0, 0]
        (snd (onMessagePending env_release (incoming Type_Event 5 9 [42]) proxy_pending),
         late_reply))) 0 = []"
    by (simp add: proxy_pending_store)
  moreover have "holds (OnMessage_begin (incoming Type_Reply 5 3 [2, 111, 107])) = {}"
    by simp
  ultimately show ?thesis using h proxy_pending_registry by blast
qed

end
